theory Spec2Isabelle
  imports Complex_Main "HOL-Library.Sublist"
begin

section \<open>Evolution.py: outcomes of the Python code\<close>

text \<open>
  The module computes with IEEE doubles; the embedding computes with \<^typ>\<open>real\<close>.
  Where the float computation of the source leaves the finite reals (a division by
  zero, which raises \<open>ZeroDivisionError\<close> on Python floats and yields \<open>inf\<close> or
  \<open>nan\<close> with a warning on numpy floats, or a logarithm of a non-positive number)
  the model stops with the outcome \<open>FloatDomain\<close> and follows the computation no
  further. The other constructors are the Python exceptions of the same name.
\<close>

datatype error =
    TypeError
  | NotImplementedError string
  | AttributeError string
  | IndexError
  | FloatDomain

section \<open>The evolution classes\<close>

text \<open>
  The five classes of the module. \<open>Evolution\<close> is the base class of the other
  four; its base is \<open>object\<close>.
\<close>

datatype evolution_class =
    Evolution
  | NoEvolution
  | HopkinsBeacom2006StarFormationRate
  | YukselEtAl2008StarFormationRate
  | CandelsClash2015SNRate

text \<open>
  The methods each class body defines, with the number of parameters of the
  \<open>def\<close>: \<open>def __init__():\<close> declares none, \<open>def parametrization(self, x):\<close>
  declares two.
\<close>

fun class_methods :: "evolution_class \<Rightarrow> (string \<times> nat) list" where
  "class_methods Evolution =
     [(''__init__'', 0), (''parametrization'', 2), (''__call__'', 2)]"
| "class_methods NoEvolution = [(''parametrization'', 2)]"
| "class_methods HopkinsBeacom2006StarFormationRate = [(''parametrization'', 2)]"
| "class_methods YukselEtAl2008StarFormationRate =
     [(''__call__'', 2), (''parametrization'', 2)]"
| "class_methods CandelsClash2015SNRate = [(''parametrization'', 2)]"

text \<open>The method resolution order below \<open>object\<close>: the class, then its base.\<close>

fun mro :: "evolution_class \<Rightarrow> evolution_class list" where
  "mro Evolution = [Evolution]"
| "mro c = [c, Evolution]"

fun resolve :: "evolution_class list \<Rightarrow> string \<Rightarrow> nat option" where
  "resolve [] m = None"
| "resolve (c # cs) m =
     (case map_of (class_methods c) m of Some n \<Rightarrow> Some n | None \<Rightarrow> resolve cs m)"

text \<open>
  A call \<open>C(a1, ..., ak)\<close> creates the object and calls \<open>__init__\<close> with the
  object and the \<open>k\<close> arguments. A user-defined \<open>__init__\<close> whose \<open>def\<close> declares
  another number of parameters raises \<open>TypeError\<close>; with no user-defined
  \<open>__init__\<close>, \<open>object.__init__\<close> accepts no argument.
\<close>

definition instantiate :: "evolution_class \<Rightarrow> nat \<Rightarrow> error + evolution_class" where
  "instantiate c k =
     (case resolve (mro c) ''__init__'' of
        Some n \<Rightarrow> if n = Suc k then Inr c else Inl TypeError
      | None \<Rightarrow> if k = 0 then Inr c else Inl TypeError)"

text \<open>The dictionary of \<open>get_evolution\<close>, in the order of the source.\<close>

definition evolutions :: "(string \<times> evolution_class) list" where
  "evolutions =
     [(''NoEvolution'', NoEvolution),
      (''HB2006SFR'', HopkinsBeacom2006StarFormationRate),
      (''YMKBH2008SFR'', YukselEtAl2008StarFormationRate),
      (''CC2015SNR'', CandelsClash2015SNRate)]"

text \<open>
  \<open>get_evolution(evol)\<close> for a string \<open>evol\<close>: the membership test, the
  \<open>raise\<close> with its concatenated message, then the call of the class found.
\<close>

definition get_evolution :: "string \<Rightarrow> error + evolution_class" where
  "get_evolution evol =
     (if evol \<notin> set (map fst evolutions)
      then Inl (NotImplementedError (''Source evolution '' @ evol @ '' not implemented.''))
      else case map_of evolutions evol of
             Some c \<Rightarrow> instantiate c 0
           | None \<Rightarrow> Inl (NotImplementedError (''Source evolution '' @ evol @ '' not implemented.'')))"

text \<open>The names the dictionary is keyed by.\<close>

definition supported_names :: "string list" where
  "supported_names = map fst evolutions"

section \<open>The evolution laws as functions of redshift\<close>

text \<open>
  A float handed to \<open>parametrization\<close> is a real number, or one of \<open>nan\<close>,
  \<open>inf\<close>, \<open>-inf\<close>, which \<open>np.log10\<close> returns (with a warning, not an
  exception) on a non-positive argument. A method returns a float, or \<open>None\<close>
  when its body ends without a \<open>return\<close>.
\<close>

datatype pyfloat = Finite real | NonFinite

datatype pyvalue = Float real | PyNone

definition np_log10 :: "real \<Rightarrow> pyfloat" where
  "np_log10 y = (if 0 < y then Finite (log 10 y) else NonFinite)"

text \<open>
  \<open>HopkinsBeacom2006StarFormationRate.parametrization\<close>: three \<open>if\<close>
  statements in sequence, and the end of the body after them.
\<close>

definition HB2006_parametrization :: "real \<Rightarrow> pyvalue" where
  "HB2006_parametrization x =
     (if x < 0.30963 then Float (10 powr (3.28 * x - 1.82))
      else if x \<ge> 0.30963 \<and> x < 0.73878 then Float (10 powr (- 0.26 * x - 0.724))
      else if x \<ge> 0.73878 then Float (10 powr (- 8.0 * x + 4.99))
      else PyNone)"

text \<open>
  \<open>YukselEtAl2008StarFormationRate.parametrization\<close>, for a positive argument
  (the powers of the source are \<open>powr\<close> there).
\<close>

definition YMKBH2008_parametrization :: "real \<Rightarrow> real" where
  "YMKBH2008_parametrization x =
     (let a = 3.4; b = - 0.3; c = - 3.5;
          B = 5160.63662037; C = 9.06337604231;
          eta = - 10; r0 = 0.02
      in r0 * (x powr (a * eta) + (x / B) powr (b * eta) + (x / C) powr (c * eta))
                powr (1 / eta))"

text \<open>\<open>CandelsClash2015SNRate.parametrization\<close>.\<close>

definition CC2015_parametrization :: "real \<Rightarrow> real" where
  "CC2015_parametrization x =
     (let a = 0.015; b = 1.5; c = 5.0; d = 6.1;
          density = a * (10 powr x) powr c / ((10 powr x / b) powr d + 1)
      in density)"

text \<open>
  \<open>self.parametrization(x)\<close>, dispatched on the class of \<open>self\<close>. The base
  class raises; \<open>NoEvolution\<close> ignores its argument; the other three compute with
  it, and are followed on real arguments only (for the Yuksel et al. law, which
  raises its argument to negative and fractional powers, on positive ones only).
\<close>

fun parametrization :: "evolution_class \<Rightarrow> pyfloat \<Rightarrow> error + pyvalue" where
  "parametrization Evolution x = Inl (NotImplementedError ''Abstract'')"
| "parametrization NoEvolution x = Inr (Float 1)"
| "parametrization HopkinsBeacom2006StarFormationRate (Finite x) =
     Inr (HB2006_parametrization x)"
| "parametrization YukselEtAl2008StarFormationRate (Finite x) =
     (if 0 < x then Inr (Float (YMKBH2008_parametrization x)) else Inl FloatDomain)"
| "parametrization CandelsClash2015SNRate (Finite x) =
     Inr (Float (CC2015_parametrization x))"
| "parametrization c NonFinite = Inl FloatDomain"

text \<open>
  \<open>self(z)\<close>: \<open>Evolution.__call__\<close> passes \<open>np.log10(1.+z)\<close>, the override of
  \<open>YukselEtAl2008StarFormationRate\<close> passes \<open>1.+z\<close>.
\<close>

fun Evolution_call :: "evolution_class \<Rightarrow> real \<Rightarrow> error + pyvalue" where
  "Evolution_call YukselEtAl2008StarFormationRate z =
     parametrization YukselEtAl2008StarFormationRate (Finite (1 + z))"
| "Evolution_call c z = parametrization c (np_log10 (1 + z))"

section \<open>The collaborators of a source population\<close>

text \<open>
  \<open>cosmolopy.distance\<close> and \<open>scipy.integrate.quad\<close> are libraries outside the
  module. The three distance functions, with the resolved cosmology dictionary
  already applied, and the integrator (the first component of what \<open>quad\<close>
  returns) are parameters of the model; they are taken to return finite floats.
\<close>

record cosmology_provider =
  luminosity_distance :: "real \<Rightarrow> real"
  comoving_volume :: "real \<Rightarrow> real"
  diff_comoving_volume :: "real \<Rightarrow> real"

type_synonym integrator = "(real \<Rightarrow> real) \<Rightarrow> real \<Rightarrow> real \<Rightarrow> real"

section \<open>The source populations\<close>

datatype population_class = SourcePopulation | TransientSourcePopulation

text \<open>
  An object of either class. The attributes \<open>__init__\<close> assigns are fields;
  the attributes assigned later (\<open>redshift_bins\<close>, \<open>redshift_cdf\<close>) live in
  \<open>attrs\<close>, keyed by their name, so that reading a name that was never assigned
  is the \<open>AttributeError\<close> it is in Python.
\<close>

record population =
  cls :: population_class
  zlocal :: real
  Mpc2cm :: real
  GeV_per_sec_2_ergs_per_year :: real
  evolution :: "real \<Rightarrow> real"
  cosmology :: cosmology_provider
  dL1 :: real
  attrs :: "string \<rightharpoonup> real list"

definition LuminosityDistance :: "population \<Rightarrow> real \<Rightarrow> real" where
  "LuminosityDistance self z = luminosity_distance (cosmology self) z"

text \<open>\<open>__init__(self, cosmology, evolution)\<close>, inherited by the transient class.\<close>

definition population_init ::
  "population_class \<Rightarrow> cosmology_provider \<Rightarrow> (real \<Rightarrow> real) \<Rightarrow> population" where
  "population_init k cosmo evol =
     \<lparr>cls = k,
      zlocal = 0.01,
      Mpc2cm = 3.086 * 10 ^ 24,
      GeV_per_sec_2_ergs_per_year = 50526,
      evolution = evol,
      cosmology = cosmo,
      dL1 = luminosity_distance cosmo 1,
      attrs = Map.empty\<rparr>"

text \<open>
  \<open>RedshiftDistribution\<close> of the base class, its override, and the method a
  call \<open>self.RedshiftDistribution(z)\<close> reaches. The override divides by
  \<open>1.+z\<close>; it is the source's value for \<open>z \<noteq> -1\<close>.
\<close>

definition SourcePopulation_RedshiftDistribution :: "population \<Rightarrow> real \<Rightarrow> real" where
  "SourcePopulation_RedshiftDistribution self z =
     4 * pi * evolution self z * diff_comoving_volume (cosmology self) z"

definition TransientSourcePopulation_RedshiftDistribution :: "population \<Rightarrow> real \<Rightarrow> real" where
  "TransientSourcePopulation_RedshiftDistribution self z =
     SourcePopulation_RedshiftDistribution self z * 1 / (1 + z)"

definition RedshiftDistribution :: "population \<Rightarrow> real \<Rightarrow> real" where
  "RedshiftDistribution self z =
     (case cls self of
        SourcePopulation \<Rightarrow> SourcePopulation_RedshiftDistribution self z
      | TransientSourcePopulation \<Rightarrow> TransientSourcePopulation_RedshiftDistribution self z)"

definition RedshiftIntegral :: "integrator \<Rightarrow> population \<Rightarrow> real \<Rightarrow> real" where
  "RedshiftIntegral quad self zmax =
     (let integrand = (\<lambda>z. RedshiftDistribution self z)
      in quad integrand 0 zmax)"

subsection \<open>Float division and sequencing\<close>

definition fdiv :: "real \<Rightarrow> real \<Rightarrow> error + real" where
  "fdiv a b = (if b = 0 then Inl FloatDomain else Inr (a / b))"

definition and_then :: "error + 'a \<Rightarrow> ('a \<Rightarrow> error + 'b) \<Rightarrow> error + 'b" where
  "and_then r f = (case r of Inl e \<Rightarrow> Inl e | Inr v \<Rightarrow> f v)"

subsection \<open>The redshift sampling table\<close>

text \<open>
  \<open>np.arange(start, stop, step)\<close> on floats: \<open>ceil(q)\<close> values
  \<open>start + i*step\<close>, none when that count is not positive, where \<open>q\<close> is the
  quotient \<open>(stop - start)/step\<close> as double arithmetic computes it. A rounding of
  \<open>q\<close> across an integer changes the count (and lets the last value reach
  \<open>stop\<close>), so this quotient is not taken over the reals: the double division
  \<open>dquot\<close> is a parameter, and the theorems bound its relative error. A zero
  step is rejected.
\<close>

definition np_arange ::
  "(real \<Rightarrow> real \<Rightarrow> real) \<Rightarrow> real \<Rightarrow> real \<Rightarrow> real \<Rightarrow> error + real list" where
  "np_arange dquot start stop step =
     (if step = 0 then Inl FloatDomain
      else Inr (map (\<lambda>i. start + real i * step)
                  [0 ..< nat \<lceil>dquot (stop - start) step\<rceil>]))"

text \<open>\<open>np.cumsum\<close>: the running sums.\<close>

fun cumsum_from :: "real \<Rightarrow> real list \<Rightarrow> real list" where
  "cumsum_from acc [] = []"
| "cumsum_from acc (x # xs) = (acc + x) # cumsum_from (acc + x) xs"

definition np_cumsum :: "real list \<Rightarrow> real list" where
  "np_cumsum xs = cumsum_from 0 xs"

text \<open>
  \<open>setup_redshift_cdf(self, zmax, zmin=0.0005, bins=10000)\<close>, with the double
  division \<open>np.arange\<close> counts by. \<open>RedshiftCDF[-1]\<close> raises \<open>IndexError\<close> on
  an empty array; a last running sum of zero makes the rescaled table \<open>nan\<close>.
\<close>

definition setup_redshift_cdf ::
  "(real \<Rightarrow> real \<Rightarrow> real) \<Rightarrow> population \<Rightarrow> real \<Rightarrow> real \<Rightarrow> int \<Rightarrow> error + population" where
  "setup_redshift_cdf dquot self zmax zmin bins =
     and_then (fdiv zmax (real_of_int bins)) (\<lambda>step.
     and_then (np_arange dquot zmin zmax step) (\<lambda>redshift_bins.
       let RedshiftPDF = map (\<lambda>i. RedshiftDistribution self (redshift_bins ! i))
                             [0 ..< length redshift_bins];
           RedshiftCDF = np_cumsum RedshiftPDF
       in if RedshiftCDF = [] then Inl IndexError
          else if last RedshiftCDF = 0 then Inl FloatDomain
          else let RedshiftCDF = map (\<lambda>c. c / last RedshiftCDF) RedshiftCDF
               in Inr (self\<lparr>attrs := (attrs self)
                         (''redshift_bins'' \<mapsto> redshift_bins,
                          ''redshift_cdf'' \<mapsto> RedshiftCDF)\<rparr>)))"

text \<open>
  \<open>np.searchsorted(a, v)\<close> with the default \<open>side='left'\<close>, on a sorted array:
  the first index whose entry is not below \<open>v\<close>, the length when there is none.
\<close>

definition np_searchsorted :: "real list \<Rightarrow> real \<Rightarrow> nat" where
  "np_searchsorted a v = length (takeWhile (\<lambda>c. c < v) a)"

definition getattr :: "population \<Rightarrow> string \<Rightarrow> error + real list" where
  "getattr self name =
     (case attrs self name of None \<Rightarrow> Inl (AttributeError name) | Some v \<Rightarrow> Inr v)"

fun index_all :: "real list \<Rightarrow> nat list \<Rightarrow> error + real list" where
  "index_all xs [] = Inr []"
| "index_all xs (i # is) =
     (if i < length xs
      then and_then (index_all xs is) (\<lambda>rest. Inr (xs ! i # rest))
      else Inl IndexError)"

text \<open>
  \<open>sample_redshift(self, N=1)\<close>. The uniform draws of \<open>np.random.rand\<close> are
  the parameter \<open>rand\<close> (\<open>rand i\<close> is the draw number \<open>i\<close>); the result lists
  the \<open>N\<close> redshifts (the single one for \<open>N = 1\<close>). The source reads the
  attribute \<open>redshif_cdf\<close>.
\<close>

definition sample_redshift ::
  "population \<Rightarrow> nat \<Rightarrow> (nat \<Rightarrow> real) \<Rightarrow> error + real list" where
  "sample_redshift self N rand =
     (let rand_cdf = map rand [0 ..< N]
      in and_then (getattr self ''redshif_cdf'') (\<lambda>cdf.
           let bin_index = map (np_searchsorted cdf) rand_cdf
           in and_then (getattr self ''redshift_bins'') (\<lambda>edges.
                index_all edges bin_index)))"

subsection \<open>Source counts, luminosity and flux\<close>

definition Nsources :: "integrator \<Rightarrow> population \<Rightarrow> real \<Rightarrow> real \<Rightarrow> error + real" where
  "Nsources quad self density zmax =
     (let vlocal = comoving_volume (cosmology self) (zlocal self)
      in and_then (fdiv (RedshiftIntegral quad self (zlocal self))
                        (RedshiftIntegral quad self zmax)) (\<lambda>ratio.
         fdiv (density * vlocal) ratio))"

text \<open>
  The integrand of both conversions, \<open>E*(E/E0)**(-abs(index))\<close>; the power is
  \<open>powr\<close> for \<open>E/E0 > 0\<close>, and \<open>E0 = 0\<close> leaves the reals at every energy.
\<close>

definition flux_integrand :: "real \<Rightarrow> real \<Rightarrow> real \<Rightarrow> real" where
  "flux_integrand E0 index E = E * (E / E0) powr (- \<bar>index\<bar>)"

definition Flux2Lumi ::
  "integrator \<Rightarrow> population \<Rightarrow> real \<Rightarrow> real \<Rightarrow> real \<Rightarrow> real \<Rightarrow> real \<Rightarrow> error + real" where
  "Flux2Lumi quad self fluxnorm index emin emax E0 =
     (if E0 = 0 then Inl FloatDomain
      else let integrand = flux_integrand E0 index;
               flux_integral = quad integrand emin emax;
               luminosity = fluxnorm / E0 ^ 2 * flux_integral *
                 GeV_per_sec_2_ergs_per_year self *
                 4 * pi * (dL1 self * Mpc2cm self) ^ 2
           in Inr luminosity)"

definition Lumi2Flux ::
  "integrator \<Rightarrow> population \<Rightarrow> real \<Rightarrow> real \<Rightarrow> real \<Rightarrow> real \<Rightarrow> real \<Rightarrow> error + real" where
  "Lumi2Flux quad self luminosity index emin emax E0 =
     (if E0 = 0 then Inl FloatDomain
      else let integrand = flux_integrand E0 index;
               flux_integral = quad integrand emin emax
           in and_then (fdiv (luminosity / 4 / pi) ((dL1 self * Mpc2cm self) ^ 2)) (\<lambda>a.
              and_then (fdiv a (GeV_per_sec_2_ergs_per_year self)) (\<lambda>b.
              and_then (fdiv b flux_integral) (\<lambda>c.
              Inr (c * E0 ^ 2)))))"

subsection \<open>Standard candles\<close>

text \<open>
  A call of \<open>scipy.integrate.quad\<close>: the integrand and the two limits it is
  given.
\<close>

datatype quad_call = Quad (integrand: "real \<Rightarrow> real") (lower: real) (upper: real)

definition run :: "integrator \<Rightarrow> quad_call \<Rightarrow> real" where
  "run quad c = quad (integrand c) (lower c) (upper c)"

text \<open>
  The integral in the denominator of \<open>StandardCandleSources\<close>, as each class
  writes it; \<open>norm_z\<close> (the source's \<open>norm\<close>) is
  \<open>self.RedshiftIntegral(zmax)\<close>. The power is \<open>powr\<close> for \<open>z > -1\<close>.
\<close>

definition SourcePopulation_denominator :: "population \<Rightarrow> real \<Rightarrow> real \<Rightarrow> quad_call" where
  "SourcePopulation_denominator self norm_z index =
     Quad (\<lambda>z. (1 + z) powr (- \<bar>index\<bar> + 2) / LuminosityDistance self z ^ 2 *
                RedshiftDistribution self z / norm_z)
          0 10"

definition TransientSourcePopulation_denominator ::
  "population \<Rightarrow> real \<Rightarrow> real \<Rightarrow> quad_call" where
  "TransientSourcePopulation_denominator self norm_z index =
     Quad (\<lambda>z. (1 + z) powr (- \<bar>index\<bar> + 3) / (LuminosityDistance self z ^ 2) *
                RedshiftDistribution self z / norm_z)
          0 10"

definition SourcePopulation_StandardCandleSources ::
  "integrator \<Rightarrow> population \<Rightarrow> real \<Rightarrow> real \<Rightarrow> real \<Rightarrow> real \<Rightarrow> error + real" where
  "SourcePopulation_StandardCandleSources quad self fluxnorm density zmax index =
     (let norm_z = RedshiftIntegral quad self zmax
      in and_then (Nsources quad self density zmax) (\<lambda>Ntotal.
         let all_sky_flux = 4 * pi * fluxnorm
         in and_then (fdiv all_sky_flux Ntotal) (\<lambda>a.
            and_then (fdiv a (dL1 self ^ 2)) (\<lambda>b.
            fdiv b (run quad (SourcePopulation_denominator self norm_z index))))))"

definition TransientSourcePopulation_StandardCandleSources ::
  "integrator \<Rightarrow> population \<Rightarrow> real \<Rightarrow> real \<Rightarrow> real \<Rightarrow> real \<Rightarrow> error + real" where
  "TransientSourcePopulation_StandardCandleSources quad self fluxnorm density zmax index =
     (let norm_z = RedshiftIntegral quad self zmax
      in and_then (Nsources quad self density zmax) (\<lambda>Ntotal.
         let yr2sec = 86400 * 365;
             all_sky_flux = 4 * pi * fluxnorm * yr2sec
         in and_then (fdiv all_sky_flux Ntotal) (\<lambda>a.
            and_then (fdiv a (dL1 self ^ 2)) (\<lambda>b.
            fdiv b (run quad (TransientSourcePopulation_denominator self norm_z index))))))"

text \<open>The integral a call \<open>self.StandardCandleSources(...)\<close> takes, by class.\<close>

definition denominator_call ::
  "integrator \<Rightarrow> population \<Rightarrow> real \<Rightarrow> real \<Rightarrow> quad_call" where
  "denominator_call quad self zmax index =
     (case cls self of
        SourcePopulation \<Rightarrow>
          SourcePopulation_denominator self (RedshiftIntegral quad self zmax) index
      | TransientSourcePopulation \<Rightarrow>
          TransientSourcePopulation_denominator self (RedshiftIntegral quad self zmax) index)"

definition StandardCandleSources ::
  "integrator \<Rightarrow> population \<Rightarrow> real \<Rightarrow> real \<Rightarrow> real \<Rightarrow> real \<Rightarrow> error + real" where
  "StandardCandleSources quad self fluxnorm density zmax index =
     (case cls self of
        SourcePopulation \<Rightarrow>
          SourcePopulation_StandardCandleSources quad self fluxnorm density zmax index
      | TransientSourcePopulation \<Rightarrow>
          TransientSourcePopulation_StandardCandleSources quad self fluxnorm density zmax index)"

section \<open>Inputs for closed examples\<close>

text \<open>
  A provider and an integrator to evaluate the model on: the low-redshift
  limit of a flat cosmology in units of the Hubble distance, and the midpoint
  rule.
\<close>

definition example_cosmology :: cosmology_provider where
  "example_cosmology =
     \<lparr>luminosity_distance = (\<lambda>z. z * (1 + z)),
      comoving_volume = (\<lambda>z. z ^ 3),
      diff_comoving_volume = (\<lambda>z. z ^ 2)\<rparr>"

definition midpoint_quad :: integrator where
  "midpoint_quad f a b = (b - a) * f ((a + b) / 2)"



text \<open>
  A double division for the examples: the exact quotient, and one that errs
  upwards by a relative \<open>1e-16\<close>.
\<close>

definition exact_dquot :: "real \<Rightarrow> real \<Rightarrow> real" where
  "exact_dquot a b = a / b"

definition rounded_dquot :: "real \<Rightarrow> real \<Rightarrow> real" where
  "rounded_dquot a b = a / b * (1 + 1 / 10 ^ 16)"

text \<open>A steady population of constant density on that provider.\<close>

definition example_population :: population where
  "example_population = population_init SourcePopulation example_cosmology (\<lambda>z. 1)"

text \<open>The lengths of the two arrays a successful setup has stored.\<close>

definition table_sizes :: "error + population \<Rightarrow> error + nat option \<times> nat option" where
  "table_sizes r =
     (case r of
        Inl e \<Rightarrow> Inl e
      | Inr p \<Rightarrow> Inr (map_option length (attrs p ''redshift_bins''),
                       map_option length (attrs p ''redshift_cdf'')))"

text \<open>The last edge a successful setup has stored.\<close>

definition table_last_edge :: "error + population \<Rightarrow> error + real option" where
  "table_last_edge r =
     (case r of
        Inl e \<Rightarrow> Inl e
      | Inr p \<Rightarrow> Inr (map_option last (attrs p ''redshift_bins'')))"

section \<open>Selecting an evolution law\<close>

lemma resolve_init_concrete: "resolve (mro c) ''__init__'' = Some 0"
  by (cases c) simp_all

lemma instantiate_fails: "instantiate c 0 = Inl TypeError"
  by (simp add: instantiate_def resolve_init_concrete)

text \<open>
  Claim C1. For every name of the supported set \<open>NoEvolution\<close>, \<open>HB2006SFR\<close>,
  \<open>YMKBH2008SFR\<close>, \<open>CC2015SNR\<close>, \<open>get_evolution\<close> raises \<open>TypeError\<close>: the
  \<open>__init__\<close> every class resolves to is the one of \<open>Evolution\<close>, declared with no
  parameter, and it is called with the new object. No instance is ever returned.
\<close>

theorem get_evolution_supported_raises_TypeError:
  "(evol \<in> {''NoEvolution'', ''HB2006SFR'', ''YMKBH2008SFR'', ''CC2015SNR''} \<longrightarrow>
    get_evolution evol = Inl TypeError) \<and>
   (\<forall>name c. get_evolution name \<noteq> Inr c)"
  by (auto simp add: get_evolution_def evolutions_def instantiate_fails)

theorem get_evolution_supported_raises_TypeError_witness:
  "''HB2006SFR'' \<in> {''NoEvolution'', ''HB2006SFR'', ''YMKBH2008SFR'', ''CC2015SNR''} \<and>
   get_evolution ''HB2006SFR'' = Inl TypeError"
proof -
  have h: "''HB2006SFR'' \<in> {''NoEvolution'', ''HB2006SFR'', ''YMKBH2008SFR'', ''CC2015SNR''}"
    by simp
  from get_evolution_supported_raises_TypeError [of "''HB2006SFR''"] h show ?thesis by blast
qed

lemma supported_names_eq:
  "set supported_names = {''NoEvolution'', ''HB2006SFR'', ''YMKBH2008SFR'', ''CC2015SNR''}"
  by (auto simp add: supported_names_def evolutions_def)

text \<open>
  Claim C5, as the code has it. For every name outside the supported set,
  \<open>get_evolution\<close> raises \<open>NotImplementedError\<close> before any class is called,
  with the message \<open>Source evolution <name> not implemented.\<close>, which contains
  the requested name.
\<close>

theorem get_evolution_unknown_raises:
  "evol \<notin> {''NoEvolution'', ''HB2006SFR'', ''YMKBH2008SFR'', ''CC2015SNR''} \<Longrightarrow>
   get_evolution evol =
     Inl (NotImplementedError (''Source evolution '' @ evol @ '' not implemented.'')) \<and>
   sublist evol (''Source evolution '' @ evol @ '' not implemented.'')"
proof
  assume "evol \<notin> {''NoEvolution'', ''HB2006SFR'', ''YMKBH2008SFR'', ''CC2015SNR''}"
  then have "evol \<notin> set (map fst evolutions)"
    by (simp only: supported_names_eq [unfolded supported_names_def] not_False_eq_True)
  then show "get_evolution evol =
      Inl (NotImplementedError (''Source evolution '' @ evol @ '' not implemented.''))"
    by (simp only: get_evolution_def if_True not_False_eq_True)
next
  show "sublist evol (''Source evolution '' @ evol @ '' not implemented.'')"
    by (rule sublist_appendI)
qed

theorem get_evolution_unknown_raises_witness:
  "''SFR'' \<notin> {''NoEvolution'', ''HB2006SFR'', ''YMKBH2008SFR'', ''CC2015SNR''} \<and>
   get_evolution ''SFR'' = Inl (NotImplementedError ''Source evolution SFR not implemented.'') \<and>
   sublist ''SFR'' ''Source evolution SFR not implemented.''"
proof -
  have h: "''SFR'' \<notin> {''NoEvolution'', ''HB2006SFR'', ''YMKBH2008SFR'', ''CC2015SNR''}"
    by simp
  from get_evolution_unknown_raises [OF h] h show ?thesis by simp
qed

text \<open>
  The message of the error does not list the supported names: for the unknown
  name \<open>SFR\<close> it mentions none of \<open>NoEvolution\<close>, \<open>HB2006SFR\<close>,
  \<open>YMKBH2008SFR\<close>, \<open>CC2015SNR\<close>.
\<close>

theorem get_evolution_message_omits_supported_set:
  "get_evolution ''SFR'' = Inl (NotImplementedError ''Source evolution SFR not implemented.'') \<and>
   \<not> sublist ''NoEvolution'' ''Source evolution SFR not implemented.'' \<and>
   \<not> sublist ''HB2006SFR'' ''Source evolution SFR not implemented.'' \<and>
   \<not> sublist ''YMKBH2008SFR'' ''Source evolution SFR not implemented.'' \<and>
   \<not> sublist ''CC2015SNR'' ''Source evolution SFR not implemented.''"
  by (simp add: get_evolution_def evolutions_def sublist_Cons_right)

section \<open>The evolution laws are non-negative\<close>

lemma HB2006_nonnegative: "\<exists>v. HB2006_parametrization x = Float v \<and> 0 \<le> v"
  by (simp add: HB2006_parametrization_def)

lemma YMKBH2008_nonnegative: "0 \<le> YMKBH2008_parametrization x"
  by (simp add: YMKBH2008_parametrization_def Let_def)

lemma CC2015_nonnegative: "0 \<le> CC2015_parametrization x"
  by (simp add: CC2015_parametrization_def Let_def)

text \<open>
  Claim C10. Each of the four concrete laws, called at a redshift \<open>z\<close> of
  \<open>[0, 10]\<close>, returns a float that is not negative; \<open>NoEvolution\<close> returns
  exactly 1 at every \<open>z\<close>.
\<close>

theorem evolution_laws_nonnegative:
  "(c \<in> {NoEvolution, HopkinsBeacom2006StarFormationRate,
          YukselEtAl2008StarFormationRate, CandelsClash2015SNRate} \<longrightarrow>
    0 \<le> z \<longrightarrow> z \<le> 10 \<longrightarrow> (\<exists>v. Evolution_call c z = Inr (Float v) \<and> 0 \<le> v)) \<and>
   (\<forall>z'. Evolution_call NoEvolution z' = Inr (Float 1))"
  using HB2006_nonnegative YMKBH2008_nonnegative CC2015_nonnegative
  by (auto simp add: np_log10_def)

theorem evolution_laws_nonnegative_witness:
  "CandelsClash2015SNRate \<in> {NoEvolution, HopkinsBeacom2006StarFormationRate,
          YukselEtAl2008StarFormationRate, CandelsClash2015SNRate} \<and>
   (0::real) \<le> 3 \<and> (3::real) \<le> 10 \<and>
   (\<exists>v. Evolution_call CandelsClash2015SNRate 3 = Inr (Float v) \<and> 0 \<le> v) \<and>
   Evolution_call NoEvolution 7 = Inr (Float 1)"
  using evolution_laws_nonnegative [of CandelsClash2015SNRate 3] by simp

section \<open>The redshift sampling table\<close>

lemma cumsum_from_length: "length (cumsum_from acc xs) = length xs"
  by (induction xs arbitrary: acc) simp_all

lemma cumsum_from_empty: "cumsum_from acc xs = [] \<longleftrightarrow> xs = []"
  by (cases xs) simp_all

lemma cumsum_from_last:
  "xs \<noteq> [] \<Longrightarrow> last (cumsum_from acc xs) = acc + sum_list xs"
proof (induction xs arbitrary: acc)
  case Nil
  then show ?case by simp
next
  case (Cons x xs)
  show ?case
  proof (cases "xs = []")
    case True
    then show ?thesis by simp
  next
    case False
    then show ?thesis using Cons.IH [of "acc + x"] by (simp add: cumsum_from_empty)
  qed
qed

lemma cumsum_from_lower:
  "\<forall>x \<in> set xs. 0 \<le> x \<Longrightarrow> y \<in> set (cumsum_from acc xs) \<Longrightarrow> acc \<le> y"
proof (induction xs arbitrary: acc)
  case Nil
  then show ?case by simp
next
  case (Cons x xs)
  then show ?case by fastforce
qed

lemma cumsum_from_sorted:
  "\<forall>x \<in> set xs. 0 \<le> x \<Longrightarrow> sorted (cumsum_from acc xs)"
proof (induction xs arbitrary: acc)
  case Nil
  then show ?case by simp
next
  case (Cons x xs)
  then show ?case using cumsum_from_lower [of xs _ "acc + x"] by auto
qed

lemma sorted_scale:
  assumes "sorted xs" and "0 < (t::real)"
  shows "sorted (map (\<lambda>c. c / t) xs)"
  using assms by (induction xs) (auto simp add: divide_right_mono)

lemma below_ceiling:
  assumes "i < nat \<lceil>x::real\<rceil>"
  shows "real i < x"
proof -
  from assms have "int i < \<lceil>x\<rceil>" by linarith
  then have "of_int (int i) < x" by (simp only: less_ceiling_iff)
  then show ?thesis by simp
qed

lemma arange_nth:
  assumes "np_arange dquot start stop step = Inr xs" and "i < length xs"
  shows "xs ! i = start + real i * step"
  using assms by (auto simp add: np_arange_def split: if_splits)

lemma arange_length:
  assumes "np_arange dquot start stop step = Inr xs"
  shows "length xs = nat \<lceil>dquot (stop - start) step\<rceil>"
  using assms by (auto simp add: np_arange_def split: if_splits)

lemma arange_increasing:
  assumes "np_arange dquot start stop step = Inr xs" and "0 < step"
  shows "sorted_wrt (<) xs"
proof -
  have "sorted_wrt (<) xs = sorted_wrt (\<lambda>i j. start + real i * step < start + real j * step)
      [0 ..< nat \<lceil>dquot (stop - start) step\<rceil>]"
    using assms by (auto simp add: np_arange_def sorted_wrt_map split: if_splits)
  also have "\<dots>"
    using assms(2) by (intro sorted_wrt_mono_rel [OF _ sorted_wrt_upt]) simp
  finally show ?thesis .
qed

lemma arange_range:
  assumes "np_arange dquot start stop step = Inr xs" and "0 < step" and "x \<in> set xs"
  shows "start \<le> x \<and> x < start + dquot (stop - start) step * step"
proof -
  from assms(3) obtain i where i: "i < length xs" and x: "x = xs ! i"
    by (auto simp add: in_set_conv_nth)
  have xi: "x = start + real i * step"
    using arange_nth [OF assms(1) i] x by simp
  have "real i < dquot (stop - start) step"
    using i arange_length [OF assms(1)] by (simp add: below_ceiling)
  then have "real i * step < dquot (stop - start) step * step"
    using assms(2) by simp
  moreover have "0 \<le> real i * step" using assms(2) by simp
  ultimately show ?thesis using xi by linarith
qed

text \<open>
  The exact quotient \<open>x\<close> the count is taken from, and what a double quotient
  \<open>q\<close> of relative error \<open>eps\<close> gives, for \<open>eps * bins < 1\<close>.
\<close>

lemma exact_quotient:
  assumes "0 < zmin" and "zmin < zmax" and "0 < bins"
  shows "(zmax - zmin) / (zmax / real_of_int bins) =
           real_of_int bins - zmin * real_of_int bins / zmax"
    and "0 < (zmax - zmin) / (zmax / real_of_int bins)"
    and "(zmax - zmin) / (zmax / real_of_int bins) < real_of_int bins"
proof -
  let ?x = "(zmax - zmin) / (zmax / real_of_int bins)"
  have zp: "0 < zmax" using assms by linarith
  have bp: "0 < real_of_int bins" using assms by simp
  show x: "?x = real_of_int bins - zmin * real_of_int bins / zmax"
    using zp by (simp add: field_simps)
  show "0 < ?x" using assms zp bp by simp
  have "0 < zmin * real_of_int bins / zmax" using assms zp bp by simp
  then show "?x < real_of_int bins" using x by linarith
qed

lemma rounded_count:
  assumes x: "0 < x" and xb: "x < real_of_int bins"
    and eps: "0 \<le> eps" and small: "eps * real_of_int bins < 1"
    and q: "\<bar>q - x\<bar> \<le> eps * x"
  shows "0 < q" and "q < x + 1" and "x < q + 1"
    and "0 < \<lceil>q\<rceil>" and "\<lceil>x\<rceil> - 1 \<le> \<lceil>q\<rceil>" and "\<lceil>q\<rceil> \<le> \<lceil>x\<rceil> + 1"
proof -
  have bp: "0 < real_of_int bins" using x xb by linarith
  have "eps * x \<le> eps * real_of_int bins"
    using eps xb by (intro mult_left_mono) simp_all
  then have ex: "eps * x < 1" using small by linarith
  have "1 \<le> real_of_int bins" using bp by simp
  then have "eps * 1 \<le> eps * real_of_int bins"
    using eps by (intro mult_left_mono) simp_all
  then have e1: "eps < 1" using small by simp
  have "0 < (1 - eps) * x" using e1 x by simp
  then have "0 < x - eps * x" by (simp add: algebra_simps)
  then show qp: "0 < q" using q by linarith
  show up: "q < x + 1" using q ex by linarith
  show lo: "x < q + 1" using q ex by linarith
  show "0 < \<lceil>q\<rceil>" using qp by (simp add: less_ceiling_iff)
  have cq: "q \<le> real_of_int \<lceil>q\<rceil>" by (rule le_of_int_ceiling)
  have cx: "x \<le> real_of_int \<lceil>x\<rceil>" by (rule le_of_int_ceiling)
  have "x \<le> real_of_int \<lceil>q\<rceil> + 1" using lo cq by linarith
  then have "x \<le> real_of_int (\<lceil>q\<rceil> + 1)" by simp
  then have "\<lceil>x\<rceil> \<le> \<lceil>q\<rceil> + 1" by (simp only: ceiling_le_iff)
  then show "\<lceil>x\<rceil> - 1 \<le> \<lceil>q\<rceil>" by simp
  have "q \<le> real_of_int \<lceil>x\<rceil> + 1" using up cx by linarith
  then have "q \<le> real_of_int (\<lceil>x\<rceil> + 1)" by simp
  then show "\<lceil>q\<rceil> \<le> \<lceil>x\<rceil> + 1" by (simp only: ceiling_le_iff)
qed

lemma rounded_count_le_bins:
  assumes zmin: "0 < zmin" and zmax: "zmin < zmax" and bins: "0 < bins"
    and eps: "0 \<le> eps" and r: "eps \<le> zmin / zmax"
    and q: "\<bar>q - (zmax - zmin) / (zmax / real_of_int bins)\<bar> \<le>
            eps * ((zmax - zmin) / (zmax / real_of_int bins))"
  shows "\<lceil>q\<rceil> \<le> bins"
proof -
  define r where "r = zmin / zmax"
  define B where "B = real_of_int bins"
  define X where "X = (zmax - zmin) / (zmax / real_of_int bins)"
  have zp: "0 < zmax" using zmin zmax by linarith
  have bp: "0 < B" using bins by (simp add: B_def)
  have X: "X = B * (1 - r)"
    using zp by (simp add: X_def B_def r_def field_simps)
  have r0: "0 < r" using zmin zp by (simp add: r_def)
  have r1: "r < 1" using zmax zp by (simp add: r_def)
  have er: "eps \<le> r" using r by (simp add: r_def)
  have "(1 + eps) * (1 - r) \<le> (1 + r) * (1 - r)"
    using er r1 by (intro mult_right_mono) simp_all
  also have "\<dots> = 1 - r * r" by (simp add: algebra_simps)
  also have "\<dots> \<le> 1" using r0 by simp
  finally have "(1 + eps) * (1 - r) \<le> 1" .
  then have "B * ((1 + eps) * (1 - r)) \<le> B * 1"
    using bp by (intro mult_left_mono) simp_all
  moreover have "X + eps * X = B * ((1 + eps) * (1 - r))"
    by (simp add: X algebra_simps)
  ultimately have "X + eps * X \<le> B" by simp
  moreover have "q \<le> X + eps * X" using q by (simp add: X_def)
  ultimately have "q \<le> real_of_int bins" by (simp add: B_def)
  then show ?thesis by (simp only: ceiling_le_iff)
qed

lemma sum_list_positive:
  "xs \<noteq> [] \<Longrightarrow> \<forall>x \<in> set xs. 0 < (x::real) \<Longrightarrow> 0 < sum_list xs"
  by (induction xs) (auto simp add: add_pos_nonneg sum_list_nonneg less_imp_le)

lemma setup_redshift_cdf_table:
  assumes zmin: "0 < zmin" and zmax: "zmin < zmax" and bins: "0 < bins"
    and eps: "0 \<le> eps" and small: "eps * real_of_int bins < 1"
    and q: "\<bar>dquot (zmax - zmin) (zmax / real_of_int bins) -
              (zmax - zmin) / (zmax / real_of_int bins)\<bar> \<le>
            eps * ((zmax - zmin) / (zmax / real_of_int bins))"
    and pos: "\<And>z. zmin \<le> z \<Longrightarrow> 0 < RedshiftDistribution self z"
  shows "\<exists>p edges cdf.
      setup_redshift_cdf dquot self zmax zmin bins = Inr p \<and>
      attrs p ''redshift_bins'' = Some edges \<and>
      attrs p ''redshift_cdf'' = Some cdf \<and>
      length edges = nat \<lceil>dquot (zmax - zmin) (zmax / real_of_int bins)\<rceil> \<and>
      0 < length edges \<and>
      \<lceil>(zmax - zmin) / (zmax / real_of_int bins)\<rceil> - 1 \<le> int (length edges) \<and>
      int (length edges) \<le> \<lceil>(zmax - zmin) / (zmax / real_of_int bins)\<rceil> + 1 \<and>
      (eps \<le> zmin / zmax \<longrightarrow> int (length edges) \<le> bins) \<and>
      (\<forall>i < length edges. edges ! i = zmin + real i * (zmax / real_of_int bins)) \<and>
      sorted_wrt (<) edges \<and>
      (\<forall>z \<in> set edges. zmin \<le> z \<and> z < zmax + zmax / real_of_int bins) \<and>
      0 < hd edges \<and>
      length cdf = length edges \<and> sorted cdf \<and> last cdf = 1"
proof -
  define step where "step = zmax / real_of_int bins"
  define x where "x = (zmax - zmin) / step"
  define qq where "qq = dquot (zmax - zmin) step"
  define edges where "edges = map (\<lambda>i. zmin + real i * step) [0 ..< nat \<lceil>qq\<rceil>]"
  define pdf where "pdf = map (RedshiftDistribution self) edges"
  define total where "total = last (np_cumsum pdf)"
  define cdf where "cdf = map (\<lambda>c. c / total) (np_cumsum pdf)"
  have step_pos: "0 < step"
    using zmin zmax bins by (simp add: step_def)
  have ar: "np_arange dquot zmin zmax step = Inr edges"
    using step_pos by (simp add: np_arange_def edges_def qq_def)
  have xq: "0 < x" "x < real_of_int bins"
    using exact_quotient [OF zmin zmax bins] by (simp_all add: x_def step_def)
  have qx: "\<bar>qq - x\<bar> \<le> eps * x"
    using q by (simp add: qq_def x_def step_def)
  note rc = rounded_count [OF xq eps small qx]
  have len: "length edges = nat \<lceil>qq\<rceil>"
    using arange_length [OF ar] by (simp add: qq_def)
  have len_pos: "0 < length edges" using len rc(4) by simp
  have len_lo: "\<lceil>x\<rceil> - 1 \<le> int (length edges)" using len rc(4,5) by simp
  have len_hi: "int (length edges) \<le> \<lceil>x\<rceil> + 1" using len rc(4,6) by simp
  have len_le: "eps \<le> zmin / zmax \<longrightarrow> int (length edges) \<le> bins"
  proof
    assume "eps \<le> zmin / zmax"
    from rounded_count_le_bins [OF zmin zmax bins eps this q]
    have "\<lceil>qq\<rceil> \<le> bins" by (simp add: qq_def step_def)
    then show "int (length edges) \<le> bins" using len rc(4) by simp
  qed
  have nth: "\<forall>i < length edges. edges ! i = zmin + real i * step"
    using arange_nth [OF ar] by simp
  have incr: "sorted_wrt (<) edges"
    using arange_increasing [OF ar step_pos] .
  have "x * step = zmax - zmin"
    using step_pos by (simp add: x_def)
  then have "(x + 1) * step = zmax - zmin + step"
    by (simp add: algebra_simps)
  moreover have "qq * step < (x + 1) * step"
    using rc(2) step_pos by simp
  ultimately have top: "zmin + qq * step < zmax + step" by linarith
  have range: "\<forall>z \<in> set edges. zmin \<le> z \<and> z < zmax + step"
  proof
    fix z assume "z \<in> set edges"
    from arange_range [OF ar step_pos this] top
    show "zmin \<le> z \<and> z < zmax + step" by (simp add: qq_def)
  qed
  have nonempty: "edges \<noteq> []" using len_pos by auto
  then have "hd edges \<in> set edges" by simp
  then have hd_pos: "0 < hd edges" using range zmin by fastforce
  have pdf_alt: "map (\<lambda>i. RedshiftDistribution self (edges ! i)) [0 ..< length edges] = pdf"
    unfolding pdf_def by (rule nth_equalityI) simp_all
  have pdf_pos: "\<forall>x \<in> set pdf. 0 < x"
    using range pos by (auto simp add: pdf_def)
  have pdf_ne: "pdf \<noteq> []" using nonempty by (simp add: pdf_def)
  have cum_ne: "np_cumsum pdf \<noteq> []"
    using pdf_ne by (simp add: np_cumsum_def cumsum_from_empty)
  have total_pos: "0 < total"
    using cumsum_from_last [OF pdf_ne, of 0] sum_list_positive [OF pdf_ne pdf_pos]
    by (simp add: total_def np_cumsum_def)
  have cum_sorted: "sorted (np_cumsum pdf)"
    unfolding np_cumsum_def using pdf_pos by (intro cumsum_from_sorted) (auto simp add: less_imp_le)
  have cdf_sorted: "sorted cdf"
    unfolding cdf_def using cum_sorted total_pos by (rule sorted_scale)
  have cdf_len: "length cdf = length edges"
    by (simp add: cdf_def np_cumsum_def cumsum_from_length pdf_def)
  have cdf_last: "last cdf = 1"
    using cum_ne total_pos by (simp add: cdf_def last_map total_def)
  define p where "p = self\<lparr>attrs := (attrs self)
      (''redshift_bins'' \<mapsto> edges, ''redshift_cdf'' \<mapsto> cdf)\<rparr>"
  have bins_nz: "real_of_int bins \<noteq> 0" using bins by simp
  have total_nz: "last (np_cumsum pdf) \<noteq> 0" using total_pos by (simp add: total_def)
  have run: "setup_redshift_cdf dquot self zmax zmin bins = Inr p"
    unfolding setup_redshift_cdf_def and_then_def fdiv_def Let_def
    using bins_nz ar [unfolded step_def] cum_ne total_nz
    by (simp add: p_def cdf_def total_def pdf_alt)
  have a1: "attrs p ''redshift_bins'' = Some edges" by (simp add: p_def)
  have a2: "attrs p ''redshift_cdf'' = Some cdf" by (simp add: p_def)
  from run a1 a2 len len_pos len_lo len_hi len_le nth incr range hd_pos
    cdf_len cdf_sorted cdf_last
  show ?thesis unfolding qq_def x_def step_def by blast
qed

lemma example_distribution_positive:
  "0 < z \<Longrightarrow> 0 < RedshiftDistribution example_population z"
  by (simp add: example_population_def population_init_def RedshiftDistribution_def
      SourcePopulation_RedshiftDistribution_def example_cosmology_def)

lemma exact_dquot_error:
  "\<bar>exact_dquot a b - a / b\<bar> \<le> 0 * (a / b)"
  by (simp add: exact_dquot_def)

lemma rounded_dquot_error:
  assumes "0 \<le> a / b"
  shows "\<bar>rounded_dquot a b - a / b\<bar> \<le> 1 / 10 ^ 15 * (a / b)"
proof -
  have "rounded_dquot a b - a / b = 1 / 10 ^ 16 * (a / b)"
    by (simp add: rounded_dquot_def algebra_simps)
  moreover have "1 / 10 ^ 16 * (a / b) \<le> 1 / 10 ^ 15 * (a / b)"
    using assms by (intro mult_right_mono) simp_all
  moreover have "0 \<le> 1 / 10 ^ 16 * (a / b)" using assms by simp
  ultimately show ?thesis by simp
qed

text \<open>
  Claim C4, as the code has it. Let \<open>0 < zmin < zmax\<close>, \<open>bins\<close> be positive,
  the redshift distribution be positive from \<open>zmin\<close> on, and the double quotient
  \<open>q\<close> of \<open>zmax - zmin\<close> by the step \<open>zmax / bins\<close> have a relative error of at
  most \<open>eps\<close>, with \<open>eps * bins < 1\<close>. Then \<open>setup_redshift_cdf\<close> stores
  \<open>ceil(q)\<close> edges: at least one, within one of \<open>ceil((zmax - zmin) / (zmax / bins))\<close>,
  and at most \<open>bins\<close> when \<open>eps \<le> zmin / zmax\<close>. The edges are
  \<open>zmin + i * zmax / bins\<close>, strictly increasing, above zero, not below \<open>zmin\<close>
  and below \<open>zmax + zmax / bins\<close>; the cumulative table has one entry per edge,
  is non-decreasing, and its last entry is 1.
\<close>

theorem redshift_table_built:
  assumes "0 < zmin" and "zmin < zmax" and "0 < bins"
    and "0 \<le> eps" and "eps * real_of_int bins < 1"
    and "\<bar>dquot (zmax - zmin) (zmax / real_of_int bins) -
              (zmax - zmin) / (zmax / real_of_int bins)\<bar> \<le>
            eps * ((zmax - zmin) / (zmax / real_of_int bins))"
    and "\<And>z. zmin \<le> z \<Longrightarrow> 0 < RedshiftDistribution self z"
  shows "\<exists>p edges cdf.
      setup_redshift_cdf dquot self zmax zmin bins = Inr p \<and>
      attrs p ''redshift_bins'' = Some edges \<and>
      attrs p ''redshift_cdf'' = Some cdf \<and>
      length edges = nat \<lceil>dquot (zmax - zmin) (zmax / real_of_int bins)\<rceil> \<and>
      0 < length edges \<and>
      \<lceil>(zmax - zmin) / (zmax / real_of_int bins)\<rceil> - 1 \<le> int (length edges) \<and>
      int (length edges) \<le> \<lceil>(zmax - zmin) / (zmax / real_of_int bins)\<rceil> + 1 \<and>
      (eps \<le> zmin / zmax \<longrightarrow> int (length edges) \<le> bins) \<and>
      (\<forall>i < length edges. edges ! i = zmin + real i * (zmax / real_of_int bins)) \<and>
      sorted_wrt (<) edges \<and>
      (\<forall>z \<in> set edges. zmin \<le> z \<and> z < zmax + zmax / real_of_int bins) \<and>
      0 < hd edges \<and>
      length cdf = length edges \<and> sorted cdf \<and> last cdf = 1"
  using assms by (rule setup_redshift_cdf_table)

theorem redshift_table_built_witness:
  "(0::real) < 0.0005 \<and> (0.0005::real) < 10 \<and> (0::int) < 10000 \<and>
   (0::real) \<le> 1 / 10 ^ 15 \<and> 1 / 10 ^ 15 * real_of_int 10000 < 1 \<and>
   \<bar>rounded_dquot (10 - 0.0005) (10 / real_of_int 10000) -
      (10 - 0.0005) / (10 / real_of_int 10000)\<bar> \<le>
     1 / 10 ^ 15 * ((10 - 0.0005) / (10 / real_of_int 10000)) \<and>
   0 < RedshiftDistribution example_population 0.0005 \<and>
   (\<exists>p edges cdf.
      setup_redshift_cdf rounded_dquot example_population 10 0.0005 10000 = Inr p \<and>
      attrs p ''redshift_bins'' = Some edges \<and>
      attrs p ''redshift_cdf'' = Some cdf \<and>
      length edges = nat \<lceil>rounded_dquot (10 - 0.0005) (10 / real_of_int 10000)\<rceil> \<and>
      0 < length edges \<and>
      \<lceil>(10 - 0.0005) / (10 / real_of_int 10000)\<rceil> - 1 \<le> int (length edges) \<and>
      int (length edges) \<le> \<lceil>(10 - 0.0005) / (10 / real_of_int 10000)\<rceil> + 1 \<and>
      ((1 / 10 ^ 15 :: real) \<le> 0.0005 / 10 \<longrightarrow> int (length edges) \<le> 10000) \<and>
      (\<forall>i < length edges. edges ! i = 0.0005 + real i * (10 / real_of_int 10000)) \<and>
      sorted_wrt (<) edges \<and>
      (\<forall>z \<in> set edges. 0.0005 \<le> z \<and> z < 10 + 10 / real_of_int 10000) \<and>
      0 < hd edges \<and>
      length cdf = length edges \<and> sorted cdf \<and> last cdf = 1)"
proof -
  have pos: "\<And>z. (0.0005::real) \<le> z \<Longrightarrow> 0 < RedshiftDistribution example_population z"
    by (rule example_distribution_positive) simp
  have h1: "(0::real) < 0.0005" and h2: "(0.0005::real) < 10" and h3: "(0::int) < 10000"
    and h4: "(0::real) \<le> 1 / 10 ^ 15" and h5: "1 / 10 ^ 15 * real_of_int 10000 < 1"
    by simp_all
  have h6: "\<bar>rounded_dquot (10 - 0.0005) (10 / real_of_int 10000) -
      (10 - 0.0005) / (10 / real_of_int 10000)\<bar> \<le>
     1 / 10 ^ 15 * ((10 - 0.0005) / (10 / real_of_int 10000))"
    by (rule rounded_dquot_error) simp
  have h7: "0 < RedshiftDistribution example_population 0.0005"
    by (rule pos) simp
  from redshift_table_built [where dquot = rounded_dquot and self = example_population,
      OF h1 h2 h3 h4 h5 h6 pos] h1 h2 h3 h4 h5 h6 h7
  show ?thesis by blast
qed

lemma default_count_at_one:
  "table_sizes (setup_redshift_cdf exact_dquot example_population 1 0.0005 10000) =
     Inr (Some 9995, Some 9995)"
proof -
  have "\<exists>p edges cdf. setup_redshift_cdf exact_dquot example_population 1 0.0005 10000 = Inr p \<and>
      attrs p ''redshift_bins'' = Some edges \<and> attrs p ''redshift_cdf'' = Some cdf \<and>
      length edges = nat \<lceil>exact_dquot (1 - 0.0005) (1 / real_of_int 10000)\<rceil> \<and>
      0 < length edges \<and>
      \<lceil>(1 - 0.0005) / (1 / real_of_int 10000)\<rceil> - 1 \<le> int (length edges) \<and>
      int (length edges) \<le> \<lceil>(1 - 0.0005) / (1 / real_of_int 10000)\<rceil> + 1 \<and>
      ((0::real) \<le> 0.0005 / 1 \<longrightarrow> int (length edges) \<le> 10000) \<and>
      (\<forall>i < length edges. edges ! i = 0.0005 + real i * (1 / real_of_int 10000)) \<and>
      sorted_wrt (<) edges \<and>
      (\<forall>z \<in> set edges. 0.0005 \<le> z \<and> z < 1 + 1 / real_of_int 10000) \<and>
      0 < hd edges \<and>
      length cdf = length edges \<and> sorted cdf \<and> last cdf = 1"
    by (rule setup_redshift_cdf_table [where eps = 0])
       (simp_all add: example_distribution_positive exact_dquot_def)
  then obtain p edges cdf where
    p: "setup_redshift_cdf exact_dquot example_population 1 0.0005 10000 = Inr p"
    and e: "attrs p ''redshift_bins'' = Some edges"
    and c: "attrs p ''redshift_cdf'' = Some cdf"
    and l: "length edges = nat \<lceil>exact_dquot (1 - 0.0005) (1 / real_of_int 10000)\<rceil>"
    and lc: "length cdf = length edges"
    by blast
  have "exact_dquot (1 - 0.0005) (1 / real_of_int 10000) = (9995::real)"
    by (simp add: exact_dquot_def)
  then have "length edges = 9995" using l by simp
  then show ?thesis using p e c lc by (simp add: table_sizes_def)
qed

lemma rounded_count_at_two_thousandths:
  "table_sizes (setup_redshift_cdf rounded_dquot example_population 0.002 0.0005 10000) =
     Inr (Some 7501, Some 7501) \<and>
   table_last_edge (setup_redshift_cdf rounded_dquot example_population 0.002 0.0005 10000) =
     Inr (Some 0.002)"
proof -
  have q: "\<bar>rounded_dquot (0.002 - 0.0005) (0.002 / real_of_int 10000) -
      (0.002 - 0.0005) / (0.002 / real_of_int 10000)\<bar> \<le>
     1 / 10 ^ 15 * ((0.002 - 0.0005) / (0.002 / real_of_int 10000))"
    by (rule rounded_dquot_error) simp
  have "\<exists>p edges cdf.
      setup_redshift_cdf rounded_dquot example_population 0.002 0.0005 10000 = Inr p \<and>
      attrs p ''redshift_bins'' = Some edges \<and> attrs p ''redshift_cdf'' = Some cdf \<and>
      length edges = nat \<lceil>rounded_dquot (0.002 - 0.0005) (0.002 / real_of_int 10000)\<rceil> \<and>
      0 < length edges \<and>
      \<lceil>(0.002 - 0.0005) / (0.002 / real_of_int 10000)\<rceil> - 1 \<le> int (length edges) \<and>
      int (length edges) \<le> \<lceil>(0.002 - 0.0005) / (0.002 / real_of_int 10000)\<rceil> + 1 \<and>
      ((1 / 10 ^ 15 :: real) \<le> 0.0005 / 0.002 \<longrightarrow> int (length edges) \<le> 10000) \<and>
      (\<forall>i < length edges. edges ! i = 0.0005 + real i * (0.002 / real_of_int 10000)) \<and>
      sorted_wrt (<) edges \<and>
      (\<forall>z \<in> set edges. 0.0005 \<le> z \<and> z < 0.002 + 0.002 / real_of_int 10000) \<and>
      0 < hd edges \<and>
      length cdf = length edges \<and> sorted cdf \<and> last cdf = 1"
    using q by (intro setup_redshift_cdf_table [where eps = "1 / 10 ^ 15"])
       (simp_all add: example_distribution_positive)
  then obtain p edges cdf where
    p: "setup_redshift_cdf rounded_dquot example_population 0.002 0.0005 10000 = Inr p"
    and e: "attrs p ''redshift_bins'' = Some edges"
    and c: "attrs p ''redshift_cdf'' = Some cdf"
    and l: "length edges = nat \<lceil>rounded_dquot (0.002 - 0.0005) (0.002 / real_of_int 10000)\<rceil>"
    and n: "\<forall>i < length edges. edges ! i = 0.0005 + real i * (0.002 / real_of_int 10000)"
    and lc: "length cdf = length edges"
    by blast
  have v: "rounded_dquot (0.002 - 0.0005) (0.002 / real_of_int 10000) =
      7500 + 7500 / 10 ^ 16"
    by (simp add: rounded_dquot_def)
  have ce: "\<lceil>7500 + 7500 / 10 ^ 16 :: real\<rceil> = 7501"
    by (rule ceiling_unique) simp_all
  from l have "length edges = nat \<lceil>7500 + 7500 / 10 ^ 16 :: real\<rceil>"
    by (simp only: v)
  then have len: "length edges = 7501" by (simp only: ce)
  then have "edges \<noteq> []" by auto
  then have "last edges = edges ! 7500" using len by (simp add: last_conv_nth)
  also have "\<dots> = 0.0005 + real 7500 * (0.002 / real_of_int 10000)"
    using n len by simp
  also have "\<dots> = 0.002" by simp
  finally have "last edges = 0.002" .
  then show ?thesis using p e c lc len by (simp add: table_sizes_def table_last_edge_def)
qed

text \<open>
  With the default \<open>zmin\<close> and \<open>bins\<close>: for the horizon \<open>zmax = 1\<close>, where the
  quotient is 9995, the table has 9995 edges, not 10000; for the horizon
  \<open>zmax = 0.002\<close> and a quotient rounded upwards from 7500, it has 7501 edges
  and the last one is \<open>zmax\<close> itself.
\<close>

theorem setup_default_edge_count:
  "table_sizes (setup_redshift_cdf exact_dquot example_population 1 0.0005 10000) =
     Inr (Some 9995, Some 9995) \<and>
   table_sizes (setup_redshift_cdf rounded_dquot example_population 0.002 0.0005 10000) =
     Inr (Some 7501, Some 7501) \<and>
   table_last_edge (setup_redshift_cdf rounded_dquot example_population 0.002 0.0005 10000) =
     Inr (Some 0.002)"
  using default_count_at_one rounded_count_at_two_thousandths by simp

section \<open>Sampling redshifts\<close>

lemma setup_keeps_other_attrs:
  "setup_redshift_cdf dquot self zmax zmin bins = Inr p \<Longrightarrow>
   name \<noteq> ''redshift_bins'' \<Longrightarrow> name \<noteq> ''redshift_cdf'' \<Longrightarrow>
   attrs p name = attrs self name"
  by (auto simp add: setup_redshift_cdf_def and_then_def Let_def fdiv_def np_arange_def
      split: if_splits sum.splits)

text \<open>
  Claim C3. On an object that \<open>__init__\<close> has just built, before any
  \<open>setup_redshift_cdf\<close>, \<open>sample_redshift\<close> fails: reading the table raises
  \<open>AttributeError\<close>.
\<close>

theorem sample_redshift_before_setup_raises:
  "sample_redshift (population_init k cosmo evol) N rand = Inl (AttributeError ''redshif_cdf'')"
  by (simp add: sample_redshift_def getattr_def population_init_def and_then_def)

text \<open>
  Claim C2 fails on the code: after a successful \<open>setup_redshift_cdf\<close>,
  \<open>sample_redshift\<close> still raises \<open>AttributeError\<close>, because it reads
  \<open>redshif_cdf\<close> while the setup stored \<open>redshift_cdf\<close>. No redshift is ever
  returned.
\<close>

theorem sample_redshift_after_setup_raises:
  assumes "setup_redshift_cdf dquot (population_init k cosmo evol) zmax zmin bins = Inr p"
  shows "sample_redshift p N rand = Inl (AttributeError ''redshif_cdf'')"
proof -
  have "attrs p ''redshif_cdf'' = attrs (population_init k cosmo evol) ''redshif_cdf''"
    using assms by (rule setup_keeps_other_attrs) simp_all
  then have "attrs p ''redshif_cdf'' = None"
    by (simp add: population_init_def)
  then show ?thesis
    by (simp add: sample_redshift_def getattr_def and_then_def)
qed

theorem sample_redshift_after_setup_raises_witness:
  "\<exists>p. setup_redshift_cdf exact_dquot
          (population_init SourcePopulation example_cosmology (\<lambda>z. 1)) 1 0.0005 4 = Inr p \<and>
       sample_redshift p 1 (\<lambda>i. 1 / 2) = Inl (AttributeError ''redshif_cdf'')"
proof -
  have "\<exists>p edges cdf. setup_redshift_cdf exact_dquot example_population 1 0.0005 4 = Inr p \<and>
      attrs p ''redshift_bins'' = Some edges \<and> attrs p ''redshift_cdf'' = Some cdf \<and>
      length edges = nat \<lceil>exact_dquot (1 - 0.0005) (1 / real_of_int 4)\<rceil> \<and>
      0 < length edges \<and>
      \<lceil>(1 - 0.0005) / (1 / real_of_int 4)\<rceil> - 1 \<le> int (length edges) \<and>
      int (length edges) \<le> \<lceil>(1 - 0.0005) / (1 / real_of_int 4)\<rceil> + 1 \<and>
      ((0::real) \<le> 0.0005 / 1 \<longrightarrow> int (length edges) \<le> 4) \<and>
      (\<forall>i < length edges. edges ! i = 0.0005 + real i * (1 / real_of_int 4)) \<and>
      sorted_wrt (<) edges \<and>
      (\<forall>z \<in> set edges. 0.0005 \<le> z \<and> z < 1 + 1 / real_of_int 4) \<and>
      0 < hd edges \<and>
      length cdf = length edges \<and> sorted cdf \<and> last cdf = 1"
    by (rule setup_redshift_cdf_table [where eps = 0])
       (simp_all add: example_distribution_positive exact_dquot_def)
  then obtain p where
    p: "setup_redshift_cdf exact_dquot
          (population_init SourcePopulation example_cosmology (\<lambda>z. 1)) 1 0.0005 4 = Inr p"
    unfolding example_population_def by blast
  from sample_redshift_after_setup_raises [OF p] p show ?thesis by blast
qed

section \<open>Transient populations\<close>

text \<open>
  Claim C9. For every \<open>z \<ge> 0\<close>, the redshift distribution of a
  \<open>TransientSourcePopulation\<close> is that of the \<open>SourcePopulation\<close> with the same
  attributes, multiplied by \<open>1/(1+z)\<close>.
\<close>

theorem transient_distribution:
  "0 \<le> z \<Longrightarrow>
   RedshiftDistribution (self\<lparr>cls := TransientSourcePopulation\<rparr>) z =
   RedshiftDistribution (self\<lparr>cls := SourcePopulation\<rparr>) z * (1 / (1 + z))"
  by (simp add: RedshiftDistribution_def TransientSourcePopulation_RedshiftDistribution_def
      SourcePopulation_RedshiftDistribution_def)

theorem transient_distribution_witness:
  "(0::real) \<le> 1 \<and>
   RedshiftDistribution (example_population\<lparr>cls := TransientSourcePopulation\<rparr>) 1 =
   RedshiftDistribution (example_population\<lparr>cls := SourcePopulation\<rparr>) 1 * (1 / (1 + 1))"
  using transient_distribution [of 1 example_population] by simp

section \<open>Standard candles\<close>

text \<open>
  Claim C7. In both classes and for every \<open>zmax\<close>, the integral in the
  denominator of \<open>StandardCandleSources\<close> has the limits 0 and 10: \<open>zmax\<close>
  enters its integrand through the normalisation only, and the result divides
  by the integral over \<open>[0, 10]\<close>.
\<close>

theorem denominator_bounds_fixed:
  "lower (denominator_call quad self zmax index) = 0 \<and>
   upper (denominator_call quad self zmax index) = 10 \<and>
   StandardCandleSources quad self fluxnorm density zmax index =
     and_then (Nsources quad self density zmax) (\<lambda>Ntotal.
     and_then (fdiv (4 * pi * fluxnorm *
                 (case cls self of SourcePopulation \<Rightarrow> 1
                  | TransientSourcePopulation \<Rightarrow> 86400 * 365)) Ntotal) (\<lambda>a.
     and_then (fdiv a (dL1 self ^ 2)) (\<lambda>b.
     fdiv b (quad (integrand (denominator_call quad self zmax index)) 0 10))))"
  by (cases "cls self")
     (simp_all add: denominator_call_def StandardCandleSources_def
       SourcePopulation_StandardCandleSources_def
       TransientSourcePopulation_StandardCandleSources_def
       SourcePopulation_denominator_def TransientSourcePopulation_denominator_def
       run_def Let_def)

section \<open>Luminosity and flux\<close>

text \<open>
  Claim C6. On a constructed population whose luminosity distance at \<open>z = 1\<close>
  is not zero, for a reference energy \<open>E0\<close> that is not zero and a flux integral
  that is not zero, \<open>Lumi2Flux\<close> undoes \<open>Flux2Lumi\<close>: both succeed and the
  round trip returns the flux normalisation it started from, so the relative
  error is within \<open>1e-9\<close>. (Over the reals; the integrator returns the same
  value for the same call.)
\<close>

theorem flux_lumi_roundtrip:
  assumes "E0 \<noteq> 0" and "luminosity_distance cosmo 1 \<noteq> 0"
    and "quad (flux_integrand E0 index) emin emax \<noteq> 0"
  shows "\<exists>L F'. Flux2Lumi quad (population_init k cosmo evol) F index emin emax E0 = Inr L \<and>
             Lumi2Flux quad (population_init k cosmo evol) L index emin emax E0 = Inr F' \<and>
             F' = F \<and> \<bar>F' - F\<bar> \<le> 1 / 10 ^ 9 * \<bar>F\<bar>"
  using assms
  by (simp add: Flux2Lumi_def Lumi2Flux_def population_init_def fdiv_def and_then_def Let_def)

lemma example_flux_integral:
  "midpoint_quad (flux_integrand (10 ^ 5) 2) (10 ^ 2) (10 ^ 7) \<noteq> 0"
  by (simp add: midpoint_quad_def flux_integrand_def)

theorem flux_lumi_roundtrip_witness:
  "(10 ^ 5 :: real) \<noteq> 0 \<and> luminosity_distance example_cosmology 1 \<noteq> 0 \<and>
   midpoint_quad (flux_integrand (10 ^ 5) 2) (10 ^ 2) (10 ^ 7) \<noteq> 0 \<and>
   (\<exists>L F'. Flux2Lumi midpoint_quad (population_init SourcePopulation example_cosmology (\<lambda>z. 1))
               (1 / 10 ^ 8) 2 (10 ^ 2) (10 ^ 7) (10 ^ 5) = Inr L \<and>
            Lumi2Flux midpoint_quad (population_init SourcePopulation example_cosmology (\<lambda>z. 1))
               L 2 (10 ^ 2) (10 ^ 7) (10 ^ 5) = Inr F' \<and>
            F' = 1 / 10 ^ 8 \<and> \<bar>F' - 1 / 10 ^ 8\<bar> \<le> 1 / 10 ^ 9 * \<bar>1 / 10 ^ 8\<bar>)"
proof -
  have h1: "(10 ^ 5 :: real) \<noteq> 0" by simp
  have h2: "luminosity_distance example_cosmology 1 \<noteq> 0"
    by (simp add: example_cosmology_def)
  note h3 = example_flux_integral
  from flux_lumi_roundtrip [where quad = midpoint_quad and ?E0.0 = "10 ^ 5" and index = 2
      and emin = "10 ^ 2" and emax = "10 ^ 7" and cosmo = example_cosmology, OF h1 h2 h3]
    h1 h2 h3
  show ?thesis by blast
qed

section \<open>Source counts\<close>










end
